theory Spec2Isabelle
  imports Main "HOL-Library.Word" "HOL-Library.Sublist" "HOL-Library.Char_ord"
    "HOL-Library.List_Lexorder"
begin

section \<open>The request builder of httpx (request.go)\<close>

subsection \<open>Data model\<close>

text \<open>
  Go strings and byte slices are byte sequences: both are \<open>string\<close> here.
  An \<open>error\<close> value is identified by its message. A nil \<open>error\<close>, a nil pointer
  and a nil interface value are \<open>None\<close>.
\<close>

datatype error = Error string

text \<open>
  Dereferencing a nil \<open>*http.Request\<close> stops the goroutine with a run-time panic; every
  operation that reads or writes through \<open>r.req\<close> returns \<open>Inl NilPointerDereference\<close>
  in that case.
\<close>

datatype panic = NilPointerDereference

text \<open>
  The readers the package itself builds (\<open>bytes.NewBuffer\<close>, \<open>strings.NewReader\<close>) and
  the ones a caller can hand in, each with the bytes still unread; \<open>io.NopCloser\<close> wraps
  a reader into an \<open>io.ReadCloser\<close>.
\<close>

datatype reader =
    BytesBuffer string
  | BytesReader string
  | StringsReader string
  | OtherReader string

datatype read_closer = NopCloser reader

fun unread :: "reader \<Rightarrow> string" where
  "unread (BytesBuffer b) = b"
| "unread (BytesReader b) = b"
| "unread (StringsReader b) = b"
| "unread (OtherReader b) = b"

text \<open>
  \<open>context.Context\<close>: the background context and the contexts derived from it.
  The \<open>context\<close> package forbids passing a nil context, so there is none here.
\<close>

datatype Context =
    Background
  | TODO
  | WithValue Context string string

text \<open>\<open>url.Values\<close> and \<open>http.Header\<close> are \<open>map[string][]string\<close>.\<close>

type_synonym Values = "(string \<times> string list) list"

type_synonym Header = "string \<rightharpoonup> string list"

record URL =
  Scheme :: string
  Host :: string
  Path :: string
  RawQuery :: string

text \<open>The fields of \<open>http.Request\<close> that the builder or its callers can observe.\<close>

record Request =
  Method :: string
  URL :: URL
  Header :: Header
  Body :: "read_closer option"
  GetBody :: "read_closer option"
  ContentLength :: int
  Form :: "Values option"
  ctx :: Context

text \<open>
  \<open>http.Client\<close>: only \<open>Do\<close> is used. A call takes the state of the outside world and
  the request, and returns the transport error or the response, and the new state.
\<close>

datatype ('s, 'resp) Client =
  Client (client_Do: "'s \<Rightarrow> Request \<Rightarrow> (error + 'resp) \<times> 's")

text \<open>
  \<open>retryTimes\<close> is a Go \<open>uint\<close>, 64 bits wide on the 64-bit targets.
\<close>

record ('s, 'resp) RequestBuilder =
  retryTimes :: "64 word"
  err :: "error option"
  req :: "Request option"
  client :: "('s, 'resp) Client option"

subsection \<open>The standard library, as far as the builder uses it\<close>

text \<open>
  \<open>http.NewRequest(method, url, nil)\<close>: parses the URL and returns either the error or
  a request with the background context, an empty header and no body. URL parsing is
  the parameter \<open>Parse\<close> (\<open>url.Parse\<close>).
\<close>

definition http_NewRequest ::
  "(string \<Rightarrow> error + URL) \<Rightarrow> string \<Rightarrow> string \<Rightarrow> Request option \<times> error option" where
  "http_NewRequest Parse method url =
     (case Parse url of
        Inl e \<Rightarrow> (None, Some e)
      | Inr u \<Rightarrow>
          (Some \<lparr> Method = method, URL = u, Header = Map.empty, Body = None,
                  GetBody = None, ContentLength = 0, Form = None, ctx = Background \<rparr>,
           None))"

text \<open>
  \<open>textproto.CanonicalMIMEHeaderKey\<close>: a key made of token bytes only gets an upper-case
  letter at the start and after each hyphen and lower-case letters elsewhere; any other
  key is returned as it is.
\<close>

definition is_lower :: "char \<Rightarrow> bool" where
  "is_lower c = (CHR ''a'' \<le> c \<and> c \<le> CHR ''z'')"

definition is_upper :: "char \<Rightarrow> bool" where
  "is_upper c = (CHR ''A'' \<le> c \<and> c \<le> CHR ''Z'')"

definition is_digit :: "char \<Rightarrow> bool" where
  "is_digit c = (CHR ''0'' \<le> c \<and> c \<le> CHR ''9'')"

definition validHeaderFieldByte :: "char \<Rightarrow> bool" where
  "validHeaderFieldByte c =
     (is_lower c \<or> is_upper c \<or> is_digit c \<or> c \<in> set ''!#$%&*+-.^_`|~'' \<or> c = CHR 0x27)"

definition to_upper :: "char \<Rightarrow> char" where
  "to_upper c = (if is_lower c then char_of (of_char c - (32::nat)) else c)"

definition to_lower :: "char \<Rightarrow> char" where
  "to_lower c = (if is_upper c then char_of (of_char c + (32::nat)) else c)"

fun canonical_from :: "bool \<Rightarrow> string \<Rightarrow> string" where
  "canonical_from upper [] = []"
| "canonical_from upper (c # cs) =
     (let c' = (if upper then to_upper c else to_lower c)
      in c' # canonical_from (c' = CHR ''-'') cs)"

definition CanonicalMIMEHeaderKey :: "string \<Rightarrow> string" where
  "CanonicalMIMEHeaderKey s =
     (if list_all validHeaderFieldByte s then canonical_from True s else s)"

definition Header_Set :: "Header \<Rightarrow> string \<Rightarrow> string \<Rightarrow> Header" where
  "Header_Set h key v = h(CanonicalMIMEHeaderKey key \<mapsto> [v])"

definition Header_Get :: "Header \<Rightarrow> string \<Rightarrow> string" where
  "Header_Get h key =
     (case h (CanonicalMIMEHeaderKey key) of
        None \<Rightarrow> []
      | Some [] \<Rightarrow> []
      | Some (v # _) \<Rightarrow> v)"

text \<open>
  \<open>url.QueryEscape\<close>: letters, digits and \<open>- _ . ~\<close> stay, a space becomes \<open>+\<close>, every
  other byte becomes \<open>%XX\<close> with upper-case hexadecimal digits.
\<close>

definition upperhex :: "nat \<Rightarrow> char" where
  "upperhex n = ''0123456789ABCDEF'' ! n"

definition shouldEscape :: "char \<Rightarrow> bool" where
  "shouldEscape c =
     (\<not> (is_lower c \<or> is_upper c \<or> is_digit c \<or> c \<in> set ''-_.~''))"

fun QueryEscape :: "string \<Rightarrow> string" where
  "QueryEscape [] = []"
| "QueryEscape (c # cs) =
     (if \<not> shouldEscape c then c # QueryEscape cs
      else if c = CHR '' '' then CHR ''+'' # QueryEscape cs
      else CHR ''%'' # upperhex (of_char c div 16) # upperhex (of_char c mod 16)
             # QueryEscape cs)"

text \<open>
  \<open>Values.Add\<close> appends the value to the values of the key; \<open>Values.Encode\<close> writes
  \<open>key=value\<close> for every value, keys in sorted order, with \<open>&\<close> between two pairs.
\<close>

fun Values_Add :: "Values \<Rightarrow> string \<Rightarrow> string \<Rightarrow> Values" where
  "Values_Add [] key v = [(key, [v])]"
| "Values_Add ((k, vs) # rest) key v =
     (if k = key then (k, vs @ [v]) # rest else (k, vs) # Values_Add rest key v)"

fun Values_lookup :: "Values \<Rightarrow> string \<Rightarrow> string list" where
  "Values_lookup [] key = []"
| "Values_lookup ((k, vs) # rest) key = (if k = key then vs else Values_lookup rest key)"

fun encode_pairs :: "string \<Rightarrow> (string \<times> string) list \<Rightarrow> string" where
  "encode_pairs buf [] = buf"
| "encode_pairs buf ((k, v) # ps) =
     encode_pairs
       ((if buf \<noteq> [] then buf @ ''&'' else buf) @ QueryEscape k @ ''='' @ QueryEscape v) ps"

definition Values_Encode :: "Values \<Rightarrow> string" where
  "Values_Encode v =
     encode_pairs []
       (concat (map (\<lambda>k. map (\<lambda>x. (k, x)) (Values_lookup v k))
                    (sort (remdups (map fst v)))))"

subsection \<open>The builder\<close>

text \<open>\<open>New\<close>: the request and the error are stored as \<open>http.NewRequest\<close> returns them.\<close>

definition New :: "(string \<Rightarrow> error + URL) \<Rightarrow> string \<Rightarrow> ('s, 'resp) RequestBuilder" where
  "New Parse url =
     (case http_NewRequest Parse ''GET'' url of
        (rq, e) \<Rightarrow> \<lparr> retryTimes = 0, err = e, req = rq, client = None \<rparr>)"

definition Err :: "('s, 'resp) RequestBuilder \<Rightarrow> error option" where
  "Err r = err r"

text \<open>\<open>Method\<close> writes \<open>r.req.Method\<close> without looking at \<open>r.err\<close>.\<close>

definition Method_set ::
  "string \<Rightarrow> ('s, 'resp) RequestBuilder \<Rightarrow> panic + ('s, 'resp) RequestBuilder" where
  "Method_set m r =
     (case req r of
        None \<Rightarrow> Inl NilPointerDereference
      | Some q \<Rightarrow> Inr (r\<lparr>req := Some (q\<lparr>Method := m\<rparr>)\<rparr>))"

definition Get :: "('s, 'resp) RequestBuilder \<Rightarrow> panic + ('s, 'resp) RequestBuilder" where
  "Get r = Method_set ''GET'' r"

definition Post :: "('s, 'resp) RequestBuilder \<Rightarrow> panic + ('s, 'resp) RequestBuilder" where
  "Post r = Method_set ''POST'' r"

definition Put :: "('s, 'resp) RequestBuilder \<Rightarrow> panic + ('s, 'resp) RequestBuilder" where
  "Put r = Method_set ''PUT'' r"

definition Patch :: "('s, 'resp) RequestBuilder \<Rightarrow> panic + ('s, 'resp) RequestBuilder" where
  "Patch r = Method_set ''PATCH'' r"

definition Delete :: "('s, 'resp) RequestBuilder \<Rightarrow> panic + ('s, 'resp) RequestBuilder" where
  "Delete r = Method_set ''DELETE'' r"

definition Head :: "('s, 'resp) RequestBuilder \<Rightarrow> panic + ('s, 'resp) RequestBuilder" where
  "Head r = Method_set ''HEAD'' r"

definition Connect :: "('s, 'resp) RequestBuilder \<Rightarrow> panic + ('s, 'resp) RequestBuilder" where
  "Connect r = Method_set ''CONNECT'' r"

definition Options :: "('s, 'resp) RequestBuilder \<Rightarrow> panic + ('s, 'resp) RequestBuilder" where
  "Options r = Method_set ''OPTIONS'' r"

definition Trace :: "('s, 'resp) RequestBuilder \<Rightarrow> panic + ('s, 'resp) RequestBuilder" where
  "Trace r = Method_set ''TRACE'' r"

text \<open>\<open>Body\<close> writes \<open>r.req.Body\<close>, again without looking at \<open>r.err\<close>.\<close>

definition Body_set ::
  "read_closer option \<Rightarrow> ('s, 'resp) RequestBuilder \<Rightarrow> panic + ('s, 'resp) RequestBuilder" where
  "Body_set b r =
     (case req r of
        None \<Rightarrow> Inl NilPointerDereference
      | Some q \<Rightarrow> Inr (r\<lparr>req := Some (q\<lparr>Body := b\<rparr>)\<rparr>))"

definition SetHeader ::
  "string \<Rightarrow> string \<Rightarrow> ('s, 'resp) RequestBuilder \<Rightarrow> panic + ('s, 'resp) RequestBuilder" where
  "SetHeader key v r =
     (if err r \<noteq> None then Inr r
      else case req r of
        None \<Rightarrow> Inl NilPointerDereference
      | Some q \<Rightarrow> Inr (r\<lparr>req := Some (q\<lparr>Header := Header_Set (Header q) key v\<rparr>)\<rparr>))"

definition Form_set ::
  "Values option \<Rightarrow> ('s, 'resp) RequestBuilder \<Rightarrow> panic + ('s, 'resp) RequestBuilder" where
  "Form_set values r =
     (if err r \<noteq> None then Inr r
      else case req r of
        None \<Rightarrow> Inl NilPointerDereference
      | Some q \<Rightarrow> Inr (r\<lparr>req := Some (q\<lparr>Form := values\<rparr>)\<rparr>))"

text \<open>
  \<open>Query\<close>: the argument is a Go map, given as the list of its entries in the order
  the \<open>range\<close> loop visits them. The encoded text is appended to \<open>RawQuery\<close> with
  \<open>+=\<close>.
\<close>

definition Query ::
  "(string \<times> string) list \<Rightarrow> ('s, 'resp) RequestBuilder \<Rightarrow> panic + ('s, 'resp) RequestBuilder" where
  "Query queries r =
     (if err r \<noteq> None then Inr r
      else
        let query = foldl (\<lambda>q (key, v). Values_Add q key v) [] queries
        in case req r of
             None \<Rightarrow> Inl NilPointerDereference
           | Some q \<Rightarrow>
               Inr (r\<lparr>req := Some (q\<lparr>URL := (URL q)\<lparr>RawQuery :=
                      RawQuery (URL q) @ Values_Encode query\<rparr>\<rparr>)\<rparr>))"

definition AddQuery ::
  "string \<Rightarrow> string \<Rightarrow> ('s, 'resp) RequestBuilder \<Rightarrow> panic + ('s, 'resp) RequestBuilder" where
  "AddQuery key v r = (if err r \<noteq> None then Inr r else Query [(key, v)] r)"

text \<open>
  \<open>Json\<close>: \<open>json.Marshal\<close> is the parameter \<open>Marshal\<close>, returning the error or the
  bytes.
\<close>

definition Json ::
  "('v \<Rightarrow> error + string) \<Rightarrow> 'v \<Rightarrow> ('s, 'resp) RequestBuilder
     \<Rightarrow> panic + ('s, 'resp) RequestBuilder" where
  "Json Marshal v r =
     (if err r \<noteq> None then Inr r
      else case Marshal v of
        Inl e \<Rightarrow> Inr (r\<lparr>err := Some e\<rparr>)
      | Inr data \<Rightarrow>
          (case SetHeader ''Content-Type'' ''application/json'' r of
             Inl p \<Rightarrow> Inl p
           | Inr r1 \<Rightarrow> Body_set (Some (NopCloser (BytesBuffer data))) r1))"

definition PostForm ::
  "Values \<Rightarrow> ('s, 'resp) RequestBuilder \<Rightarrow> panic + ('s, 'resp) RequestBuilder" where
  "PostForm values r =
     (if err r \<noteq> None then Inr r
      else case SetHeader ''Content-Type'' ''application/x-www-form-urlencoded'' r of
        Inl p \<Rightarrow> Inl p
      | Inr r1 \<Rightarrow> Body_set (Some (NopCloser (StringsReader (Values_Encode values)))) r1)"

subsection \<open>Multipart forms\<close>

text \<open>
  \<open>multipart.FileHeader\<close>: the file name and what \<open>Open\<close> returns.
  \<open>multipart.Form\<close>: the two maps, each nil or the list of its entries in iteration
  order.
\<close>

record 'f FileHeader =
  Filename :: string
  Open :: "error + 'f"

record 'f multipart_Form =
  Value :: "(string \<times> string list) list option"
  File :: "(string \<times> 'f FileHeader list) list option"

text \<open>
  \<open>multipart.Writer\<close> over a fresh \<open>bytes.Buffer\<close>: \<open>'w\<close> is the state of the writer
  and of the buffer under it. Each operation returns the error or the new state;
  \<open>io_Copy\<close> is \<open>io.Copy\<close> from an opened file into the part just created.
  \<open>Close\<close> returns its error, if any, and the state it leaves: it is called a second
  time, deferred, when its error no longer counts but what it wrote does.
\<close>

record ('w, 'f) multipart_Writer =
  NewWriter :: 'w
  WriteField :: "'w \<Rightarrow> string \<Rightarrow> string \<Rightarrow> error + 'w"
  CreateFormFile :: "'w \<Rightarrow> string \<Rightarrow> string \<Rightarrow> error + 'w"
  io_Copy :: "'w \<Rightarrow> 'f \<Rightarrow> error + 'w"
  FormDataContentType :: "'w \<Rightarrow> string"
  Close :: "'w \<Rightarrow> error option \<times> 'w"
  Bytes :: "'w \<Rightarrow> string"

fun write_values ::
  "('w, 'f) multipart_Writer \<Rightarrow> 'w \<Rightarrow> string \<Rightarrow> string list \<Rightarrow> error + 'w" where
  "write_values mw w key [] = Inr w"
| "write_values mw w key (v # vs) =
     (case WriteField mw w key v of
        Inl e \<Rightarrow> Inl e
      | Inr w' \<Rightarrow> write_values mw w' key vs)"

fun write_fields ::
  "('w, 'f) multipart_Writer \<Rightarrow> 'w \<Rightarrow> (string \<times> string list) list \<Rightarrow> error + 'w" where
  "write_fields mw w [] = Inr w"
| "write_fields mw w ((key, values) # rest) =
     (case write_values mw w key values of
        Inl e \<Rightarrow> Inl e
      | Inr w' \<Rightarrow> write_fields mw w' rest)"

definition write_file ::
  "('w, 'f) multipart_Writer \<Rightarrow> 'w \<Rightarrow> string \<Rightarrow> 'f FileHeader \<Rightarrow> error + 'w" where
  "write_file mw w key file =
     (case CreateFormFile mw w key (Filename file) of
        Inl e \<Rightarrow> Inl e
      | Inr w1 \<Rightarrow>
          (case Open file of
             Inl e \<Rightarrow> Inl e
           | Inr f \<Rightarrow> io_Copy mw w1 f))"

fun write_key_files ::
  "('w, 'f) multipart_Writer \<Rightarrow> 'w \<Rightarrow> string \<Rightarrow> 'f FileHeader list \<Rightarrow> error + 'w" where
  "write_key_files mw w key [] = Inr w"
| "write_key_files mw w key (file # files) =
     (case write_file mw w key file of
        Inl e \<Rightarrow> Inl e
      | Inr w' \<Rightarrow> write_key_files mw w' key files)"

fun write_files ::
  "('w, 'f) multipart_Writer \<Rightarrow> 'w \<Rightarrow> (string \<times> 'f FileHeader list) list \<Rightarrow> error + 'w" where
  "write_files mw w [] = Inr w"
| "write_files mw w ((key, files) # rest) =
     (case write_key_files mw w key files of
        Inl e \<Rightarrow> Inl e
      | Inr w' \<Rightarrow> write_files mw w' rest)"

text \<open>
  The two loops of \<open>MultipartForm\<close>, up to the first error: the value fields, then the
  files.
\<close>

definition write_parts ::
  "('w, 'f) multipart_Writer \<Rightarrow> 'f multipart_Form \<Rightarrow> error + 'w" where
  "write_parts mw form =
     (case (case Value form of
              None \<Rightarrow> Inr (NewWriter mw)
            | Some kvs \<Rightarrow> write_fields mw (NewWriter mw) kvs) of
        Inl e \<Rightarrow> Inl e
      | Inr w1 \<Rightarrow>
          (case File form of
             None \<Rightarrow> Inr w1
           | Some kfs \<Rightarrow> write_files mw w1 kfs))"

text \<open>
  Every error path is \<open>r.err = err; return r\<close>: the buffer is local and is dropped
  there, with whatever the deferred \<open>writer.Close()\<close> still writes to it. On the
  path without error the body is \<open>io.NopCloser(body)\<close>, the buffer itself and not a
  copy of its bytes, and the deferred \<open>writer.Close()\<close> runs after \<open>r.Body\<close>, when
  the function returns: what this second \<open>Close\<close> writes is part of the body, and its
  error is discarded.
\<close>

definition MultipartForm ::
  "('w, 'f) multipart_Writer \<Rightarrow> 'f multipart_Form \<Rightarrow> ('s, 'resp) RequestBuilder
     \<Rightarrow> panic + ('s, 'resp) RequestBuilder" where
  "MultipartForm mw form r =
     (if err r \<noteq> None then Inr r
      else case write_parts mw form of
        Inl e \<Rightarrow> Inr (r\<lparr>err := Some e\<rparr>)
      | Inr w \<Rightarrow>
          (let contentType = FormDataContentType mw w
           in case Close mw w of
                (Some e, w') \<Rightarrow> Inr (r\<lparr>err := Some e\<rparr>)
              | (None, w') \<Rightarrow>
                  (case SetHeader ''Content-Type'' contentType r of
                     Inl p \<Rightarrow> Inl p
                   | Inr r1 \<Rightarrow>
                       Body_set
                         (Some (NopCloser (BytesBuffer (Bytes mw (snd (Close mw w')))))) r1)))"

subsection \<open>Terminal operations\<close>

definition Retry ::
  "64 word \<Rightarrow> ('s, 'resp) RequestBuilder \<Rightarrow> ('s, 'resp) RequestBuilder" where
  "Retry n r = r\<lparr>retryTimes := n\<rparr>"

text \<open>
  \<open>BuildWithContext\<close> returns Go's pair \<open>(*http.Request, error)\<close>.
  \<open>Request.WithContext\<close> is a shallow copy of the request with the context replaced.
\<close>

definition BuildWithContext ::
  "('s, 'resp) RequestBuilder \<Rightarrow> Context \<Rightarrow> panic + (Request option \<times> error option)" where
  "BuildWithContext r c =
     (if err r \<noteq> None then Inr (None, err r)
      else if c = Background then Inr (req r, None)
      else case req r of
        None \<Rightarrow> Inl NilPointerDereference
      | Some q \<Rightarrow> Inr (Some (q\<lparr>ctx := c\<rparr>), None))"

definition Build ::
  "('s, 'resp) RequestBuilder \<Rightarrow> panic + (Request option \<times> error option)" where
  "Build r = BuildWithContext r Background"

text \<open>
  The loop of \<open>Do\<close>: \<open>for i := 0; i < int(retryTimes); i++\<close>. \<open>bound\<close> is
  \<open>int(retryTimes)\<close>, \<open>lasterr\<close> the variable \<open>err\<close>, \<open>s\<close> the state of the outside
  world; \<open>calls\<close> counts the calls of \<open>client.Do\<close> made so far. The result is Go's
  pair \<open>(resp, err)\<close>, the final state and the number of calls.
\<close>

function attempts ::
  "('s, 'resp) Client \<Rightarrow> Request \<Rightarrow> int \<Rightarrow> int \<Rightarrow> error option \<Rightarrow> 's \<Rightarrow> nat
     \<Rightarrow> ('resp option \<times> error option) \<times> 's \<times> nat" where
  "attempts c q bound i lasterr s calls =
     (if i < bound then
        (case client_Do c s q of
           (Inr resp, s') \<Rightarrow> ((Some resp, None), s', Suc calls)
         | (Inl e, s') \<Rightarrow> attempts c q bound (i + 1) (Some e) s' (Suc calls))
      else ((None, lasterr), s, calls))"
  by pat_completeness auto
termination
  by (relation "measure (\<lambda>(c, q, bound, i, lasterr, s, calls). nat (bound - i))") auto

declare attempts.simps [simp del]

text \<open>
  \<open>Do\<close>: \<open>DefaultClient\<close> is \<open>http.DefaultClient\<close>. The conversion \<open>int(retryTimes)\<close>
  reads the 64 bits as a signed number. \<open>client.Do\<close> dereferences the request.
\<close>

definition Do ::
  "('s, 'resp) Client \<Rightarrow> ('s, 'resp) RequestBuilder \<Rightarrow> 's
     \<Rightarrow> panic + (('resp option \<times> error option) \<times> 's \<times> nat)" where
  "Do DefaultClient r s =
     (case Build r of
        Inl p \<Rightarrow> Inl p
      | Inr (rq, e) \<Rightarrow>
          (if e \<noteq> None then Inr ((None, e), s, 0)
           else
             (let c = (case client r of None \<Rightarrow> DefaultClient | Some c' \<Rightarrow> c');
                  n = (if retryTimes r = 0 then 1 else retryTimes r)
              in (case rq of
                    None \<Rightarrow>
                      (if 0 < sint n then Inl NilPointerDereference
                       else Inr ((None, None), s, 0))
                  | Some q \<Rightarrow> Inr (attempts c q (sint n) 0 None s 0)))))"

text \<open>
  A builder made by \<open>New\<close> has a request exactly when it has no error, and no operation
  removes the request: a builder without a request has an error.
\<close>

definition wf :: "('s, 'resp) RequestBuilder \<Rightarrow> bool" where
  "wf r = (req r = None \<longrightarrow> err r \<noteq> None)"

subsection \<open>Chained calls and the text one \<open>Query\<close> call appends\<close>

definition query_text :: "(string \<times> string) list \<Rightarrow> string" where
  "query_text queries = Values_Encode (foldl (\<lambda>q (key, v). Values_Add q key v) [] queries)"

text \<open>\<open>r.Query(m1).Query(m2)...\<close>: the calls one after the other.\<close>

fun Query_chain ::
  "(string \<times> string) list list \<Rightarrow> ('s, 'resp) RequestBuilder
     \<Rightarrow> panic + ('s, 'resp) RequestBuilder" where
  "Query_chain [] r = Inr r"
| "Query_chain (m # ms) r =
     (case Query m r of Inl p \<Rightarrow> Inl p | Inr r' \<Rightarrow> Query_chain ms r')"

subsection \<open>Concrete collaborators for the examples\<close>

text \<open>
  A URL parser that knows the URL of the package's tests and rejects everything else,
  as \<open>url.Parse\<close> rejects \<open>":"\<close>.
\<close>

definition Parse_localhost :: "string \<Rightarrow> error + URL" where
  "Parse_localhost u =
     (if u = ''http://localhost''
      then Inr \<lparr> Scheme = ''http'', Host = ''localhost'', Path = [], RawQuery = [] \<rparr>
      else Inl (Error ''missing protocol scheme''))"

text \<open>
  \<open>json.Marshal\<close> on three Go values: \<open>nil\<close>, a \<open>bool\<close> and a channel, which it
  rejects.
\<close>

datatype go_value = GoNil | GoBool bool | GoChan

fun Marshal_fixture :: "go_value \<Rightarrow> error + string" where
  "Marshal_fixture GoNil = Inr ''null''"
| "Marshal_fixture (GoBool b) = Inr (if b then ''true'' else ''false'')"
| "Marshal_fixture GoChan = Inl (Error ''json: unsupported type: chan int'')"

text \<open>
  A transport that plays a script: the state is the list of the outcomes still to come,
  one per call; with the script used up it fails.
\<close>

definition scripted_Client :: "((error + 'resp) list, 'resp) Client" where
  "scripted_Client =
     Client (\<lambda>s q. case s of [] \<Rightarrow> (Inl (Error ''EOF''), []) | x # xs \<Rightarrow> (x, xs))"

text \<open>
  \<open>multipart.Writer\<close> with the boundary given instead of drawn at random, over a sink
  that takes \<open>cap\<close> bytes in all and refuses the write that would exceed them; without
  a \<open>cap\<close> the sink is a buffer, which takes every write. The state is the content of
  the sink. Reading an opened file can fail, after the file has delivered its content.
\<close>

definition crlf :: string where
  "crlf = [CHR 0x0D, CHR 0x0A]"

datatype opened_file = OpenedFile (contents: string) (read_error: "error option")

definition sink_write :: "nat option \<Rightarrow> string \<Rightarrow> string \<Rightarrow> error + string" where
  "sink_write cap w bytes =
     (case cap of
        None \<Rightarrow> Inr (w @ bytes)
      | Some n \<Rightarrow>
          if length w + length bytes \<le> n then Inr (w @ bytes) else Inl (Error ''short write''))"

definition sink_Writer ::
  "nat option \<Rightarrow> string \<Rightarrow> (string, opened_file) multipart_Writer" where
  "sink_Writer cap boundary =
     \<lparr> NewWriter = [],
       WriteField = (\<lambda>w key v.
         sink_write cap w
           ((if w = [] then [] else crlf) @ ''--'' @ boundary @ crlf @
            ''Content-Disposition: form-data; name='' @ [CHR 0x22] @ key @ [CHR 0x22] @
            crlf @ crlf @ v)),
       CreateFormFile = (\<lambda>w key filename.
         sink_write cap w
           ((if w = [] then [] else crlf) @ ''--'' @ boundary @ crlf @
            ''Content-Disposition: form-data; name='' @ [CHR 0x22] @ key @ [CHR 0x22] @
            ''; filename='' @ [CHR 0x22] @ filename @ [CHR 0x22] @ crlf @
            ''Content-Type: application/octet-stream'' @ crlf @ crlf)),
       io_Copy = (\<lambda>w f.
         case sink_write cap w (contents f) of
           Inl e \<Rightarrow> Inl e
         | Inr w' \<Rightarrow> (case read_error f of None \<Rightarrow> Inr w' | Some e \<Rightarrow> Inl e)),
       FormDataContentType = (\<lambda>w. ''multipart/form-data; boundary='' @ boundary),
       Close = (\<lambda>w.
         case sink_write cap w (crlf @ ''--'' @ boundary @ ''--'' @ crlf) of
           Inl e \<Rightarrow> (Some e, w)
         | Inr w' \<Rightarrow> (None, w')),
       Bytes = (\<lambda>w. w) \<rparr>"

subsection \<open>Vocabulary for the retry loop\<close>

text \<open>
  The state of the outside world after \<open>k\<close> calls of \<open>client.Do\<close> with the same
  request, and what call number \<open>k\<close> (counted from 0) returns.
\<close>

fun state_after :: "('s, 'resp) Client \<Rightarrow> Request \<Rightarrow> 's \<Rightarrow> nat \<Rightarrow> 's" where
  "state_after c q s 0 = s"
| "state_after c q s (Suc k) = state_after c q (snd (client_Do c s q)) k"

definition outcome ::
  "('s, 'resp) Client \<Rightarrow> Request \<Rightarrow> 's \<Rightarrow> nat \<Rightarrow> error + 'resp" where
  "outcome c q s k = fst (client_Do c (state_after c q s k) q)"

text \<open>The client \<open>Do\<close> uses, and the number of attempts a retry count stands for.\<close>

definition the_client ::
  "('s, 'resp) Client \<Rightarrow> ('s, 'resp) RequestBuilder \<Rightarrow> ('s, 'resp) Client" where
  "the_client DefaultClient r = (case client r of None \<Rightarrow> DefaultClient | Some c \<Rightarrow> c)"

definition attempt_bound :: "64 word \<Rightarrow> nat" where
  "attempt_bound n = (if n = 0 then 1 else unat n)"

section \<open>Properties\<close>

subsection \<open>Construction and the request invariant\<close>

lemma New_ok:
  "Parse u = Inr x \<Longrightarrow>
   New Parse u =
     \<lparr> retryTimes = 0, err = None,
       req = Some \<lparr> Method = ''GET'', URL = x, Header = Map.empty, Body = None,
                    GetBody = None, ContentLength = 0, Form = None, ctx = Background \<rparr>,
       client = None \<rparr>"
  by (simp add: New_def http_NewRequest_def)

lemma New_failed:
  "Parse u = Inl e \<Longrightarrow>
   New Parse u = \<lparr> retryTimes = 0, err = Some e, req = None, client = None \<rparr>"
  by (simp add: New_def http_NewRequest_def)

lemma New_localhost:
  "New Parse_localhost ''http://localhost'' =
     \<lparr> retryTimes = 0, err = None,
       req = Some \<lparr> Method = ''GET'',
                    URL = \<lparr> Scheme = ''http'', Host = ''localhost'', Path = [],
                            RawQuery = [] \<rparr>,
                    Header = Map.empty, Body = None, GetBody = None, ContentLength = 0,
                    Form = None, ctx = Background \<rparr>,
       client = None \<rparr>"
  by (simp add: New_def http_NewRequest_def Parse_localhost_def)

lemma New_colon:
  "New Parse_localhost '':'' =
     \<lparr> retryTimes = 0, err = Some (Error ''missing protocol scheme''), req = None,
       client = None \<rparr>"
  by (simp add: New_def http_NewRequest_def Parse_localhost_def)

lemma wf_New: "wf (New Parse u)"
  by (cases "Parse u") (simp_all add: wf_def New_ok New_failed)

lemma wf_no_error: "wf r \<Longrightarrow> err r = None \<Longrightarrow> \<exists>q. req r = Some q"
  by (cases "req r") (simp_all add: wf_def)

lemma wf_preserved:
  assumes "wf r"
  shows "Method_set m r = Inr r' \<Longrightarrow> wf r'"
    and "Body_set b r = Inr r' \<Longrightarrow> wf r'"
    and "SetHeader key v r = Inr r' \<Longrightarrow> wf r'"
    and "Form_set values r = Inr r' \<Longrightarrow> wf r'"
    and "Query queries r = Inr r' \<Longrightarrow> wf r'"
    and "AddQuery key v r = Inr r' \<Longrightarrow> wf r'"
    and "wf (Retry n r)"
  using assms
  by (auto simp add: wf_def Method_set_def Body_set_def SetHeader_def Form_set_def Query_def
      AddQuery_def Retry_def Let_def split: option.splits if_splits)

lemma wf_preserved_body_builders:
  assumes "wf r"
  shows "Json Marshal x r = Inr r' \<Longrightarrow> wf r'"
    and "PostForm vs r = Inr r' \<Longrightarrow> wf r'"
    and "MultipartForm mw form r = Inr r' \<Longrightarrow> wf r'"
  using assms
  by (auto simp add: wf_def Json_def PostForm_def MultipartForm_def SetHeader_def
      Body_set_def Let_def split: option.splits if_splits sum.splits prod.splits)

subsection \<open>Body\<close>

text \<open>
  C10. \<open>Body(source)\<close> changes the body field of the pending request and nothing else:
  the method, the URL with its query string, the headers, the other request fields, the
  retry count, the error slot and the client are as before. This holds with and without
  a latched error. On a builder without a request (the URL was rejected) the call
  panics and changes nothing.
\<close>

theorem Body_frame:
  "(req r = None \<longrightarrow> Body_set b r = Inl NilPointerDereference) \<and>
   (\<forall>q. req r = Some q \<longrightarrow>
      (\<exists>r' q'. Body_set b r = Inr r' \<and> req r' = Some q' \<and> Body q' = b \<and>
         Method q' = Method q \<and> URL q' = URL q \<and> Header q' = Header q \<and>
         GetBody q' = GetBody q \<and> ContentLength q' = ContentLength q \<and>
         Form q' = Form q \<and> ctx q' = ctx q \<and>
         retryTimes r' = retryTimes r \<and> err r' = err r \<and> client r' = client r))"
  by (simp add: Body_set_def)

theorem Body_frame_witness:
  "\<exists>r' q'. Body_set (Some (NopCloser (StringsReader ''Body test!'')))
        (New Parse_localhost ''http://localhost'' :: (unit, unit) RequestBuilder) = Inr r' \<and>
      req r' = Some q' \<and> Body q' = Some (NopCloser (StringsReader ''Body test!'')) \<and>
      Method q' = ''GET'' \<and> RawQuery (URL q') = [] \<and> Header q' = Map.empty \<and>
      retryTimes r' = 0 \<and> err r' = None"
  using Body_frame [of "New Parse_localhost ''http://localhost'' :: (unit, unit) RequestBuilder"
      "Some (NopCloser (StringsReader ''Body test!''))"]
  by (auto simp add: New_localhost)

subsection \<open>Build and BuildWithContext\<close>

text \<open>
  C6. \<open>BuildWithContext(ctx)\<close> returns the latched error when there is one. Otherwise
  it returns the pending request as it is when \<open>ctx\<close> is the background context, and
  the request with its context replaced by \<open>ctx\<close> for any other context. \<open>Build()\<close>
  returns what \<open>BuildWithContext\<close> returns for the background context.
\<close>

theorem BuildWithContext_spec:
  "(\<forall>e. err r = Some e \<longrightarrow> BuildWithContext r c = Inr (None, Some e)) \<and>
   (err r = None \<and> wf r \<longrightarrow>
      (\<exists>q. req r = Some q \<and>
           BuildWithContext r Background = Inr (Some q, None) \<and>
           (c \<noteq> Background \<longrightarrow> BuildWithContext r c = Inr (Some (q\<lparr>ctx := c\<rparr>), None)))) \<and>
   Build r = BuildWithContext r Background"
  by (cases "req r") (auto simp add: BuildWithContext_def Build_def wf_def)

theorem BuildWithContext_spec_witness:
  "BuildWithContext (New Parse_localhost ''http://localhost'' :: (unit, unit) RequestBuilder)
       (WithValue Background ''key'' ''value'') =
     Inr (Some \<lparr> Method = ''GET'',
                 URL = \<lparr> Scheme = ''http'', Host = ''localhost'', Path = [],
                         RawQuery = [] \<rparr>,
                 Header = Map.empty, Body = None, GetBody = None, ContentLength = 0,
                 Form = None, ctx = WithValue Background ''key'' ''value'' \<rparr>, None) \<and>
   Build (New Parse_localhost ''http://localhost'' :: (unit, unit) RequestBuilder) =
     Inr (Some \<lparr> Method = ''GET'',
                 URL = \<lparr> Scheme = ''http'', Host = ''localhost'', Path = [],
                         RawQuery = [] \<rparr>,
                 Header = Map.empty, Body = None, GetBody = None, ContentLength = 0,
                 Form = None, ctx = Background \<rparr>, None) \<and>
   BuildWithContext (New Parse_localhost '':'' :: (unit, unit) RequestBuilder) TODO =
     Inr (None, Some (Error ''missing protocol scheme''))"
  using BuildWithContext_spec
      [of "New Parse_localhost ''http://localhost'' :: (unit, unit) RequestBuilder"
        "WithValue Background ''key'' ''value''"]
    BuildWithContext_spec [of "New Parse_localhost '':'' :: (unit, unit) RequestBuilder" TODO]
    wf_New [of Parse_localhost "''http://localhost''"]
  by (auto simp add: New_localhost New_colon)

subsection \<open>A rejected URL\<close>

text \<open>
  C9. When request construction rejects the URL, \<open>New\<close> still returns a builder; its
  error slot holds the construction error, \<open>Err()\<close> returns it, and \<open>Build\<close>,
  \<open>BuildWithContext\<close> and \<open>Do\<close> return exactly it. \<open>Do\<close> makes no call of the
  transport and leaves the outside world as it was.
\<close>

theorem New_rejected_url:
  assumes "Parse u = Inl e"
  shows "Err (New Parse u) = Some e \<and>
         BuildWithContext (New Parse u) c = Inr (None, Some e) \<and>
         Build (New Parse u) = Inr (None, Some e) \<and>
         Do dc (New Parse u) s = Inr ((None, Some e), s, 0)"
  using assms by (simp add: New_failed Err_def BuildWithContext_def Build_def Do_def)

theorem New_rejected_url_witness:
  "Parse_localhost '':'' = Inl (Error ''missing protocol scheme'') \<and>
   Err (New Parse_localhost '':'' :: ((error + nat) list, nat) RequestBuilder) =
     Some (Error ''missing protocol scheme'') \<and>
   BuildWithContext (New Parse_localhost '':'' :: ((error + nat) list, nat) RequestBuilder) TODO =
     Inr (None, Some (Error ''missing protocol scheme'')) \<and>
   Build (New Parse_localhost '':'' :: ((error + nat) list, nat) RequestBuilder) =
     Inr (None, Some (Error ''missing protocol scheme'')) \<and>
   Do scripted_Client (New Parse_localhost '':'') [Inr 200] =
     Inr ((None, Some (Error ''missing protocol scheme'')), [Inr (200::nat)], 0)"
proof -
  have rejected: "Parse_localhost '':'' = Inl (Error ''missing protocol scheme'')"
    by (simp add: Parse_localhost_def)
  show ?thesis
    using rejected
      New_rejected_url [where Parse = Parse_localhost and u = "'':''" and c = TODO
        and dc = scripted_Client and s = "[Inr (200::nat)]", OF rejected]
    by simp
qed

subsection \<open>Query parameters\<close>

lemma query_text_single: "query_text [(k, v)] = QueryEscape k @ ''='' @ QueryEscape v"
  by (simp add: query_text_def Values_Encode_def)

lemma Query_ok:
  "err r = None \<Longrightarrow> req r = Some q \<Longrightarrow>
   Query m r = Inr (r\<lparr>req := Some (q\<lparr>URL := (URL q)\<lparr>RawQuery :=
                  RawQuery (URL q) @ query_text m\<rparr>\<rparr>)\<rparr>)"
  by (simp add: Query_def query_text_def)

lemma Query_chain_raw:
  "err r = None \<Longrightarrow> req r = Some q \<Longrightarrow>
   \<exists>q'. Query_chain ms r = Inr (r\<lparr>req := Some q'\<rparr>) \<and>
        RawQuery (URL q') = RawQuery (URL q) @ concat (map query_text ms)"
proof (induction ms arbitrary: r q)
  case Nil
  then show ?case
    by (intro exI [of _ q]) simp
next
  case (Cons m ms)
  let ?q1 = "q\<lparr>URL := (URL q)\<lparr>RawQuery := RawQuery (URL q) @ query_text m\<rparr>\<rparr>"
  let ?r1 = "r\<lparr>req := Some ?q1\<rparr>"
  have step: "Query m r = Inr ?r1"
    using Cons.prems by (rule Query_ok)
  have "err ?r1 = None" "req ?r1 = Some ?q1"
    using Cons.prems by simp_all
  from Cons.IH [OF this] obtain q' where
    q': "Query_chain ms ?r1 = Inr (?r1\<lparr>req := Some q'\<rparr>)"
        "RawQuery (URL q') = RawQuery (URL ?q1) @ concat (map query_text ms)"
    by blast
  show ?case
    using step q' by (intro exI [of _ q']) simp
qed

text \<open>
  C7. On a builder without a latched error, \<open>Query({"key": "value"})\<close> on a URL with
  no query gives the raw query \<open>key=value\<close>. For every sequence of \<open>Query\<close> calls,
  the raw query afterwards is the raw query before followed by the encoded text of each
  call in turn: what the earlier calls appended stays as a prefix, whatever comes later.
\<close>

theorem Query_appends:
  assumes "err r = None" and "wf r"
  shows "\<exists>q. req r = Some q \<and>
     (RawQuery (URL q) = [] \<longrightarrow>
        (\<exists>q'. Query [(''key'', ''value'')] r = Inr (r\<lparr>req := Some q'\<rparr>) \<and>
              RawQuery (URL q') = ''key=value'')) \<and>
     (\<forall>ms1 ms2. \<exists>q1 q2.
        Query_chain ms1 r = Inr (r\<lparr>req := Some q1\<rparr>) \<and>
        Query_chain (ms1 @ ms2) r = Inr (r\<lparr>req := Some q2\<rparr>) \<and>
        RawQuery (URL q1) = RawQuery (URL q) @ concat (map query_text ms1) \<and>
        RawQuery (URL q2) = RawQuery (URL q1) @ concat (map query_text ms2) \<and>
        prefix (RawQuery (URL q1)) (RawQuery (URL q2)))"
proof -
  from assms obtain q where q: "req r = Some q"
    using wf_no_error by blast
  have kv: "query_text [(''key'', ''value'')] = ''key=value''"
    by code_simp
  have one: "RawQuery (URL q) = [] \<longrightarrow>
        (\<exists>q'. Query [(''key'', ''value'')] r = Inr (r\<lparr>req := Some q'\<rparr>) \<and>
              RawQuery (URL q') = ''key=value'')"
    using Query_ok [OF assms(1) q, of "[(''key'', ''value'')]"] kv by auto
  have chain: "\<exists>q1 q2.
        Query_chain ms1 r = Inr (r\<lparr>req := Some q1\<rparr>) \<and>
        Query_chain (ms1 @ ms2) r = Inr (r\<lparr>req := Some q2\<rparr>) \<and>
        RawQuery (URL q1) = RawQuery (URL q) @ concat (map query_text ms1) \<and>
        RawQuery (URL q2) = RawQuery (URL q1) @ concat (map query_text ms2) \<and>
        prefix (RawQuery (URL q1)) (RawQuery (URL q2))" for ms1 ms2
  proof -
    from Query_chain_raw [OF assms(1) q, of ms1] obtain q1 where
      q1: "Query_chain ms1 r = Inr (r\<lparr>req := Some q1\<rparr>)"
          "RawQuery (URL q1) = RawQuery (URL q) @ concat (map query_text ms1)"
      by blast
    from Query_chain_raw [OF assms(1) q, of "ms1 @ ms2"] obtain q2 where
      q2: "Query_chain (ms1 @ ms2) r = Inr (r\<lparr>req := Some q2\<rparr>)"
          "RawQuery (URL q2) = RawQuery (URL q) @ concat (map query_text (ms1 @ ms2))"
      by blast
    show ?thesis
      using q1 q2 by (intro exI [of _ q1] exI [of _ q2]) simp
  qed
  show ?thesis
    using q one chain by blast
qed

theorem Query_appends_witness:
  "err (New Parse_localhost ''http://localhost'' :: (unit, unit) RequestBuilder) = None \<and>
   wf (New Parse_localhost ''http://localhost'' :: (unit, unit) RequestBuilder) \<and>
   (\<exists>q'. Query [(''key'', ''value'')]
           (New Parse_localhost ''http://localhost'' :: (unit, unit) RequestBuilder) =
         Inr ((New Parse_localhost ''http://localhost'')\<lparr>req := Some q'\<rparr>) \<and>
         RawQuery (URL q') = ''key=value'')"
proof -
  let ?r = "New Parse_localhost ''http://localhost'' :: (unit, unit) RequestBuilder"
  have e: "err ?r = None" by (simp add: New_localhost)
  have w: "wf ?r" by (rule wf_New)
  show ?thesis
    using Query_appends [OF e w] e w by (auto simp add: New_localhost)
qed

text \<open>
  C8. On a builder without a latched error, \<open>Query\<close> with the one entry \<open>k: v\<close> sets
  the raw query to the old raw query followed directly by the escaped \<open>k\<close>, \<open>=\<close> and
  the escaped \<open>v\<close>: nothing is put between the old text and the new. Two \<open>AddQuery\<close>
  calls in a row therefore give \<open>k1=v1k2=v2\<close>.
\<close>

theorem Query_no_separator:
  assumes "err r = None" and "req r = Some u"
  shows "Query [(k, v)] r =
           Inr (r\<lparr>req := Some (u\<lparr>URL := (URL u)\<lparr>RawQuery :=
                  RawQuery (URL u) @ QueryEscape k @ ''='' @ QueryEscape v\<rparr>\<rparr>)\<rparr>) \<and>
         (case AddQuery ka va r of Inl p \<Rightarrow> Inl p | Inr r1 \<Rightarrow> AddQuery kb vb r1) =
           Inr (r\<lparr>req := Some (u\<lparr>URL := (URL u)\<lparr>RawQuery :=
                  RawQuery (URL u) @ QueryEscape ka @ ''='' @ QueryEscape va @
                  QueryEscape kb @ ''='' @ QueryEscape vb\<rparr>\<rparr>)\<rparr>)"
  using assms
  by (simp add: AddQuery_def Query_ok query_text_single)

theorem Query_no_separator_witness:
  "(case AddQuery ''k1'' ''v1''
           (New Parse_localhost ''http://localhost'' :: (unit, unit) RequestBuilder) of
      Inl p \<Rightarrow> Inl p
    | Inr r1 \<Rightarrow> AddQuery ''k2'' ''v2'' r1) =
   Inr \<lparr> retryTimes = 0, err = None,
       req = Some \<lparr> Method = ''GET'',
                    URL = \<lparr> Scheme = ''http'', Host = ''localhost'', Path = [],
                            RawQuery = ''k1=v1k2=v2'' \<rparr>,
                    Header = Map.empty, Body = None, GetBody = None, ContentLength = 0,
                    Form = None, ctx = Background \<rparr>,
       client = None \<rparr>"
proof -
  let ?r = "New Parse_localhost ''http://localhost'' :: (unit, unit) RequestBuilder"
  have esc: "QueryEscape ''k1'' = ''k1''" "QueryEscape ''v1'' = ''v1''"
    "QueryEscape ''k2'' = ''k2''" "QueryEscape ''v2'' = ''v2''"
    by code_simp+
  have e: "err ?r = None" by (simp add: New_localhost)
  have rq: "req ?r = Some \<lparr> Method = ''GET'',
                    URL = \<lparr> Scheme = ''http'', Host = ''localhost'', Path = [],
                            RawQuery = [] \<rparr>,
                    Header = Map.empty, Body = None, GetBody = None, ContentLength = 0,
                    Form = None, ctx = Background \<rparr>"
    by (simp add: New_localhost)
  note two = Query_no_separator [where r = ?r and k = "''k''" and v = "''v''" and ka = "''k1''"
        and va = "''v1''" and kb = "''k2''" and vb = "''v2''", OF e rq, THEN conjunct2,
        unfolded esc]
  show ?thesis
    using two by (simp add: New_localhost)
qed

subsection \<open>The latched error\<close>

text \<open>
  The calls that test \<open>r.err\<close> return the builder as it is once an error is latched;
  \<open>Method\<close>, \<open>Body\<close> and \<open>Retry\<close> never write the error slot; the terminal
  operations return the latched error.
\<close>

lemma guarded_calls_inert:
  assumes "err r \<noteq> None"
  shows "SetHeader key v r = Inr r" and "Form_set values r = Inr r"
    and "Query queries r = Inr r" and "AddQuery key v r = Inr r"
    and "Json Marshal x r = Inr r" and "PostForm vs r = Inr r"
    and "MultipartForm mw form r = Inr r"
  using assms
  by (simp_all add: SetHeader_def Form_set_def Query_def AddQuery_def Json_def PostForm_def
      MultipartForm_def)

lemma unguarded_calls_keep_error:
  "Method_set m r = Inr r' \<Longrightarrow> err r' = err r"
  "Body_set b r = Inr r' \<Longrightarrow> err r' = err r"
  "err (Retry n r) = err r"
  by (auto simp add: Method_set_def Body_set_def Retry_def split: option.splits)

lemma latched_error_returned:
  assumes "err r = Some e"
  shows "BuildWithContext r c = Inr (None, Some e)" and "Build r = Inr (None, Some e)"
    and "Do dc r s = Inr ((None, Some e), s, 0)"
  using assms by (simp_all add: BuildWithContext_def Build_def Do_def)

text \<open>
  C1, where the code departs from it. \<open>Method\<close> (and so \<open>Get\<close>, \<open>Post\<close>, ...) and
  \<open>Body\<close> do not test \<open>r.err\<close>. After \<open>Json\<close> has latched a serialization error,
  \<open>Post()\<close> still changes the method of the pending request and \<open>Body\<close> still
  replaces its body; on the builder of a rejected URL, which has no request, both
  dereference nil and panic.
\<close>

theorem Method_and_Body_after_latched_error:
  "Json Marshal_fixture GoChan
       (New Parse_localhost ''http://localhost'' :: (unit, unit) RequestBuilder) =
     Inr \<lparr> retryTimes = 0, err = Some (Error ''json: unsupported type: chan int''),
         req = Some \<lparr> Method = ''GET'',
                      URL = \<lparr> Scheme = ''http'', Host = ''localhost'', Path = [],
                              RawQuery = [] \<rparr>,
                      Header = Map.empty, Body = None, GetBody = None, ContentLength = 0,
                      Form = None, ctx = Background \<rparr>,
         client = None \<rparr> \<and>
   Post \<lparr> retryTimes = 0, err = Some (Error ''json: unsupported type: chan int''),
         req = Some \<lparr> Method = ''GET'',
                      URL = \<lparr> Scheme = ''http'', Host = ''localhost'', Path = [],
                              RawQuery = [] \<rparr>,
                      Header = Map.empty, Body = None, GetBody = None, ContentLength = 0,
                      Form = None, ctx = Background \<rparr>,
         client = None :: (unit, unit) Client option \<rparr> =
     Inr \<lparr> retryTimes = 0, err = Some (Error ''json: unsupported type: chan int''),
         req = Some \<lparr> Method = ''POST'',
                      URL = \<lparr> Scheme = ''http'', Host = ''localhost'', Path = [],
                              RawQuery = [] \<rparr>,
                      Header = Map.empty, Body = None, GetBody = None, ContentLength = 0,
                      Form = None, ctx = Background \<rparr>,
         client = None \<rparr> \<and>
   Body_set (Some (NopCloser (StringsReader ''late'')))
       \<lparr> retryTimes = 0, err = Some (Error ''json: unsupported type: chan int''),
         req = Some \<lparr> Method = ''GET'',
                      URL = \<lparr> Scheme = ''http'', Host = ''localhost'', Path = [],
                              RawQuery = [] \<rparr>,
                      Header = Map.empty, Body = None, GetBody = None, ContentLength = 0,
                      Form = None, ctx = Background \<rparr>,
         client = None :: (unit, unit) Client option \<rparr> =
     Inr \<lparr> retryTimes = 0, err = Some (Error ''json: unsupported type: chan int''),
         req = Some \<lparr> Method = ''GET'',
                      URL = \<lparr> Scheme = ''http'', Host = ''localhost'', Path = [],
                              RawQuery = [] \<rparr>,
                      Header = Map.empty, Body = Some (NopCloser (StringsReader ''late'')),
                      GetBody = None, ContentLength = 0,
                      Form = None, ctx = Background \<rparr>,
         client = None \<rparr> \<and>
   Post (New Parse_localhost '':'' :: (unit, unit) RequestBuilder) =
     Inl NilPointerDereference \<and>
   Body_set (Some (NopCloser (StringsReader ''late'')))
       (New Parse_localhost '':'' :: (unit, unit) RequestBuilder) =
     Inl NilPointerDereference"
  by (simp add: Json_def New_localhost New_colon Post_def Method_set_def Body_set_def)

subsection \<open>Json\<close>

lemma canonical_Content_Type: "CanonicalMIMEHeaderKey ''Content-Type'' = ''Content-Type''"
  by code_simp

lemma Header_Get_Set: "Header_Get (Header_Set h key v) key = v"
  by (simp add: Header_Get_def Header_Set_def)

lemma SetHeader_ok:
  "err r = None \<Longrightarrow> req r = Some q \<Longrightarrow>
   SetHeader key v r = Inr (r\<lparr>req := Some (q\<lparr>Header := Header_Set (Header q) key v\<rparr>)\<rparr>)"
  by (simp add: SetHeader_def)

text \<open>
  C4. On a builder without a latched error: when serialization fails, \<open>Json\<close> latches
  that error and leaves the pending request, so its body and headers, as it was; when
  it succeeds, \<open>Json\<close> sets the header \<open>Content-Type\<close> to \<open>application/json\<close> and
  the body to a buffer holding exactly the serialized bytes.
\<close>

theorem Json_spec:
  assumes "err r = None" and "wf r"
  shows "(\<forall>e. Marshal v = Inl e \<longrightarrow>
            (\<exists>r'. Json Marshal v r = Inr r' \<and> err r' = Some e \<and> req r' = req r)) \<and>
         (\<forall>data. Marshal v = Inr data \<longrightarrow>
            (\<exists>q q'. req r = Some q \<and> Json Marshal v r = Inr (r\<lparr>req := Some q'\<rparr>) \<and>
               Header q' = Header_Set (Header q) ''Content-Type'' ''application/json'' \<and>
               Header_Get (Header q') ''Content-Type'' = ''application/json'' \<and>
               Body q' = Some (NopCloser (BytesBuffer data))))"
proof -
  from assms obtain q where q: "req r = Some q"
    using wf_no_error by blast
  have failure: "\<exists>r'. Json Marshal v r = Inr r' \<and> err r' = Some e \<and> req r' = req r"
    if "Marshal v = Inl e" for e
    using that assms(1) by (simp add: Json_def)
  have success: "\<exists>q q'. req r = Some q \<and> Json Marshal v r = Inr (r\<lparr>req := Some q'\<rparr>) \<and>
               Header q' = Header_Set (Header q) ''Content-Type'' ''application/json'' \<and>
               Header_Get (Header q') ''Content-Type'' = ''application/json'' \<and>
               Body q' = Some (NopCloser (BytesBuffer data))"
    if "Marshal v = Inr data" for data
  proof -
    let ?q' = "q\<lparr>Header := Header_Set (Header q) ''Content-Type'' ''application/json'',
                 Body := Some (NopCloser (BytesBuffer data))\<rparr>"
    have "Json Marshal v r = Inr (r\<lparr>req := Some ?q'\<rparr>)"
      using that assms(1) q by (simp add: Json_def SetHeader_ok Body_set_def)
    then show ?thesis
      using q by (intro exI [of _ q] exI [of _ ?q']) (simp add: Header_Get_Set)
  qed
  show ?thesis
    using failure success by blast
qed

theorem Json_spec_witness:
  "Json Marshal_fixture GoChan
       (New Parse_localhost ''http://localhost'' :: (unit, unit) RequestBuilder) =
     Inr ((New Parse_localhost ''http://localhost'')
            \<lparr>err := Some (Error ''json: unsupported type: chan int'')\<rparr>) \<and>
   (\<exists>q'. Json Marshal_fixture (GoBool True)
       (New Parse_localhost ''http://localhost'' :: (unit, unit) RequestBuilder) =
     Inr ((New Parse_localhost ''http://localhost'')\<lparr>req := Some q'\<rparr>) \<and>
     Header_Get (Header q') ''Content-Type'' = ''application/json'' \<and>
     Body q' = Some (NopCloser (BytesBuffer ''true'')))"
proof -
  let ?r = "New Parse_localhost ''http://localhost'' :: (unit, unit) RequestBuilder"
  have e: "err ?r = None" by (simp add: New_localhost)
  have w: "wf ?r" by (rule wf_New)
  have bad: "\<exists>r'. Json Marshal_fixture GoChan ?r = Inr r' \<and>
      err r' = Some (Error ''json: unsupported type: chan int'') \<and> req r' = req ?r"
    using Json_spec [OF e w, of Marshal_fixture GoChan] by simp
  have good: "\<exists>q q'. req ?r = Some q \<and>
      Json Marshal_fixture (GoBool True) ?r = Inr (?r\<lparr>req := Some q'\<rparr>) \<and>
      Header q' = Header_Set (Header q) ''Content-Type'' ''application/json'' \<and>
      Header_Get (Header q') ''Content-Type'' = ''application/json'' \<and>
      Body q' = Some (NopCloser (BytesBuffer ''true''))"
    using Json_spec [OF e w, of Marshal_fixture "GoBool True"] by simp
  have "Json Marshal_fixture GoChan ?r =
     Inr (?r\<lparr>err := Some (Error ''json: unsupported type: chan int'')\<rparr>)"
    using bad by (simp add: Json_def New_localhost)
  then show ?thesis
    using good by blast
qed

subsection \<open>The body source and its length\<close>

text \<open>
  C2, where the code departs from it. A buffer, a byte-slice reader or a string reader
  reaches \<open>Body\<close> wrapped by \<open>io.NopCloser\<close>, as the package's own \<open>Json\<close> and
  \<open>PostForm\<close> and its tests pass them. \<open>Body\<close> stores the source and derives nothing
  from it: whatever reader \<open>v\<close> is passed on a fresh builder, the declared content
  length stays 0 and there is no replay function, also for the 10 bytes of
  \<open>"Body test!"\<close>, for the 4 bytes \<open>Json\<close> serializes and for the 9 bytes
  \<open>PostForm\<close> encodes.
\<close>

theorem Body_declares_no_length:
  "Body_set (Some (NopCloser v))
       (New Parse_localhost ''http://localhost'' :: (unit, unit) RequestBuilder) =
     Inr \<lparr> retryTimes = 0, err = None,
         req = Some \<lparr> Method = ''GET'',
                      URL = \<lparr> Scheme = ''http'', Host = ''localhost'', Path = [],
                              RawQuery = [] \<rparr>,
                      Header = Map.empty, Body = Some (NopCloser v),
                      GetBody = None, ContentLength = 0,
                      Form = None, ctx = Background \<rparr>,
         client = None \<rparr> \<and>
   int (length (unread (StringsReader ''Body test!''))) = 10 \<and>
   int (length (unread (BytesReader ''Body test!''))) = 10 \<and>
   int (length (unread (BytesBuffer ''Body test!''))) = 10 \<and>
   Json Marshal_fixture (GoBool True)
       (New Parse_localhost ''http://localhost'' :: (unit, unit) RequestBuilder) =
     Inr \<lparr> retryTimes = 0, err = None,
         req = Some \<lparr> Method = ''GET'',
                      URL = \<lparr> Scheme = ''http'', Host = ''localhost'', Path = [],
                              RawQuery = [] \<rparr>,
                      Header = [''Content-Type'' \<mapsto> [''application/json'']],
                      Body = Some (NopCloser (BytesBuffer ''true'')),
                      GetBody = None, ContentLength = 0,
                      Form = None, ctx = Background \<rparr>,
         client = None \<rparr> \<and>
   PostForm [(''key'', [''value''])]
       (New Parse_localhost ''http://localhost'' :: (unit, unit) RequestBuilder) =
     Inr \<lparr> retryTimes = 0, err = None,
         req = Some \<lparr> Method = ''GET'',
                      URL = \<lparr> Scheme = ''http'', Host = ''localhost'', Path = [],
                              RawQuery = [] \<rparr>,
                      Header = [''Content-Type'' \<mapsto> [''application/x-www-form-urlencoded'']],
                      Body = Some (NopCloser (StringsReader ''key=value'')),
                      GetBody = None, ContentLength = 0,
                      Form = None, ctx = Background \<rparr>,
         client = None \<rparr>"
proof -
  have enc: "Values_Encode [(''key'', [''value''])] = ''key=value''"
    by code_simp
  show ?thesis
    by (simp add: New_localhost Body_set_def Json_def PostForm_def SetHeader_def
        Header_Set_def canonical_Content_Type enc)
qed

subsection \<open>MultipartForm\<close>

text \<open>
  The loops stop at the first operation that fails and return its error: a field that
  cannot be written, a file part that cannot be created, a file that cannot be opened
  or copied.
\<close>

lemma write_values_first_failure:
  "write_values mw w key vs1 = Inr w1 \<Longrightarrow> WriteField mw w1 key v = Inl e \<Longrightarrow>
   write_values mw w key (vs1 @ v # vs2) = Inl e"
  by (induction vs1 arbitrary: w) (auto split: sum.splits)

lemma write_fields_first_failure:
  "write_fields mw w kvs1 = Inr w1 \<Longrightarrow> write_values mw w1 key vs = Inl e \<Longrightarrow>
   write_fields mw w (kvs1 @ (key, vs) # kvs2) = Inl e"
  by (induction kvs1 arbitrary: w) (auto split: sum.splits)

lemma write_file_failures:
  "CreateFormFile mw w key (Filename file) = Inl e \<Longrightarrow> write_file mw w key file = Inl e"
  "CreateFormFile mw w key (Filename file) = Inr w1 \<Longrightarrow> Open file = Inl e \<Longrightarrow>
     write_file mw w key file = Inl e"
  "CreateFormFile mw w key (Filename file) = Inr w1 \<Longrightarrow> Open file = Inr f \<Longrightarrow>
     io_Copy mw w1 f = Inl e \<Longrightarrow> write_file mw w key file = Inl e"
  by (simp_all add: write_file_def)

lemma write_key_files_first_failure:
  "write_key_files mw w key fs1 = Inr w1 \<Longrightarrow> write_file mw w1 key file = Inl e \<Longrightarrow>
   write_key_files mw w key (fs1 @ file # fs2) = Inl e"
  by (induction fs1 arbitrary: w) (auto split: sum.splits)

lemma write_files_first_failure:
  "write_files mw w kfs1 = Inr w1 \<Longrightarrow> write_key_files mw w1 key fs = Inl e \<Longrightarrow>
   write_files mw w (kfs1 @ (key, fs) # kfs2) = Inl e"
  by (induction kfs1 arbitrary: w) (auto split: sum.splits)

lemma write_file_first_failure:
  assumes "CreateFormFile mw w key (Filename file) = Inl e \<or>
           (\<exists>w3. CreateFormFile mw w key (Filename file) = Inr w3 \<and>
                 (Open file = Inl e \<or>
                  (\<exists>f. Open file = Inr f \<and> io_Copy mw w3 f = Inl e)))"
  shows "write_file mw w key file = Inl e"
  using assms by (auto simp add: write_file_def)

lemma write_parts_fields:
  "Value form = Some kvs \<Longrightarrow> write_fields mw (NewWriter mw) kvs = Inl e \<Longrightarrow>
   write_parts mw form = Inl e"
  by (simp add: write_parts_def)

lemma write_parts_files:
  assumes "(Value form = None \<and> w0 = NewWriter mw) \<or>
           (\<exists>kvs. Value form = Some kvs \<and> write_fields mw (NewWriter mw) kvs = Inr w0)"
    and "File form = Some kfs"
  shows "write_parts mw form = write_files mw w0 kfs"
  using assms by (auto simp add: write_parts_def)

lemma MultipartForm_latches:
  "err r = None \<Longrightarrow> write_parts mw form = Inl e \<Longrightarrow>
   MultipartForm mw form r = Inr (r\<lparr>err := Some e\<rparr>)"
  by (simp add: MultipartForm_def)

lemma MultipartForm_latched_request:
  assumes "err r = None" and "MultipartForm mw form r = Inr r'" and "err r' = Some e'"
  shows "r' = r\<lparr>err := Some e'\<rparr>"
proof (cases "write_parts mw form")
  case (Inl e)
  then show ?thesis
    using assms by (auto simp add: MultipartForm_def)
next
  case (Inr w)
  obtain eo w' where closed: "Close mw w = (eo, w')"
    by (cases "Close mw w")
  show ?thesis
  proof (cases eo)
    case (Some e)
    then show ?thesis
      using assms Inr closed by (auto simp add: MultipartForm_def)
  next
    case None
    have "err r' = None"
      using assms(1,2) Inr closed None
      by (cases "req r")
        (auto simp add: MultipartForm_def SetHeader_def Body_set_def)
    then show ?thesis
      using assms(3) by simp
  qed
qed

text \<open>
  On the path without error the body holds what the writer has written after both
  calls of \<open>Close\<close>.
\<close>

lemma MultipartForm_body:
  assumes "err r = None" and "req r = Some q" and "write_parts mw form = Inr w"
    and "Close mw w = (None, w')"
  shows "MultipartForm mw form r =
     Inr (r\<lparr>req := Some (q\<lparr>Header :=
              Header_Set (Header q) ''Content-Type'' (FormDataContentType mw w),
            Body := Some (NopCloser (BytesBuffer (Bytes mw (snd (Close mw w')))))\<rparr>)\<rparr>)"
  using assms by (simp add: MultipartForm_def SetHeader_def Body_set_def)

text \<open>
  C5. On a builder without a latched error, in whatever order the entries of the form
  come: when the fields and values before it are written and \<open>WriteField\<close> fails for a
  value, or when all fields and the files before it are written and, for a file,
  \<open>CreateFormFile\<close> fails, or \<open>Open\<close> fails, or \<open>io.Copy\<close> fails, then
  \<open>MultipartForm\<close> latches exactly the error of that operation, whatever values, fields
  and files come after it, and changes nothing else of the builder: the pending
  request, with its body and its \<open>Content-Type\<close> header, is as before the call, and
  what was encoded so far is dropped. And whenever the call leaves an error latched,
  the pending request is as before the call.
\<close>

theorem MultipartForm_error_atomic:
  assumes "err r = None"
  shows "(Value form = Some (kvsa @ (key, vsa @ v # vsb) # kvsb) \<and>
          write_fields mw (NewWriter mw) kvsa = Inr wa \<and>
          write_values mw wa key vsa = Inr wb \<and>
          WriteField mw wb key v = Inl e \<longrightarrow>
            MultipartForm mw form r = Inr (r\<lparr>err := Some e\<rparr>)) \<and>
         (((Value form = None \<and> wz = NewWriter mw) \<or>
           (\<exists>kvs. Value form = Some kvs \<and> write_fields mw (NewWriter mw) kvs = Inr wz)) \<and>
          File form = Some (kfsa @ (fkey, fsa @ fh # fsb) # kfsb) \<and>
          write_files mw wz kfsa = Inr ua \<and>
          write_key_files mw ua fkey fsa = Inr ub \<and>
          (CreateFormFile mw ub fkey (Filename fh) = Inl e \<or>
           (\<exists>wc. CreateFormFile mw ub fkey (Filename fh) = Inr wc \<and>
                 (Open fh = Inl e \<or>
                  (\<exists>f. Open fh = Inr f \<and> io_Copy mw wc f = Inl e)))) \<longrightarrow>
            MultipartForm mw form r = Inr (r\<lparr>err := Some e\<rparr>)) \<and>
         err (r\<lparr>err := Some e\<rparr>) = Some e \<and>
         req (r\<lparr>err := Some e\<rparr>) = req r \<and>
         retryTimes (r\<lparr>err := Some e\<rparr>) = retryTimes r \<and>
         (\<forall>r' e'. MultipartForm mw form r = Inr r' \<and> err r' = Some e' \<longrightarrow> req r' = req r)"
proof (intro conjI impI allI)
  assume field: "Value form = Some (kvsa @ (key, vsa @ v # vsb) # kvsb) \<and>
          write_fields mw (NewWriter mw) kvsa = Inr wa \<and>
          write_values mw wa key vsa = Inr wb \<and>
          WriteField mw wb key v = Inl e"
  then have "write_values mw wa key (vsa @ v # vsb) = Inl e"
    by (intro write_values_first_failure [of mw wa key vsa wb]) simp_all
  with field have "write_fields mw (NewWriter mw) (kvsa @ (key, vsa @ v # vsb) # kvsb) = Inl e"
    by (intro write_fields_first_failure [of mw _ kvsa wa]) simp_all
  with field have "write_parts mw form = Inl e"
    by (intro write_parts_fields) simp_all
  then show "MultipartForm mw form r = Inr (r\<lparr>err := Some e\<rparr>)"
    using assms by (intro MultipartForm_latches)
next
  assume files: "((Value form = None \<and> wz = NewWriter mw) \<or>
           (\<exists>kvs. Value form = Some kvs \<and> write_fields mw (NewWriter mw) kvs = Inr wz)) \<and>
          File form = Some (kfsa @ (fkey, fsa @ fh # fsb) # kfsb) \<and>
          write_files mw wz kfsa = Inr ua \<and>
          write_key_files mw ua fkey fsa = Inr ub \<and>
          (CreateFormFile mw ub fkey (Filename fh) = Inl e \<or>
           (\<exists>wc. CreateFormFile mw ub fkey (Filename fh) = Inr wc \<and>
                 (Open fh = Inl e \<or>
                  (\<exists>f. Open fh = Inr f \<and> io_Copy mw wc f = Inl e))))"
  then have "write_file mw ub fkey fh = Inl e"
    by (intro write_file_first_failure) simp
  with files have "write_key_files mw ua fkey (fsa @ fh # fsb) = Inl e"
    by (intro write_key_files_first_failure [of mw ua fkey fsa ub]) simp_all
  with files have "write_files mw wz (kfsa @ (fkey, fsa @ fh # fsb) # kfsb) = Inl e"
    by (intro write_files_first_failure [of mw wz kfsa ua]) simp_all
  moreover have "write_parts mw form =
      write_files mw wz (kfsa @ (fkey, fsa @ fh # fsb) # kfsb)"
    using files by (intro write_parts_files) simp_all
  ultimately have "write_parts mw form = Inl e"
    by simp
  then show "MultipartForm mw form r = Inr (r\<lparr>err := Some e\<rparr>)"
    using assms by (intro MultipartForm_latches)
next
  show "err (r\<lparr>err := Some e\<rparr>) = Some e" "req (r\<lparr>err := Some e\<rparr>) = req r"
    "retryTimes (r\<lparr>err := Some e\<rparr>) = retryTimes r"
    by simp_all
next
  fix r' e'
  assume "MultipartForm mw form r = Inr r' \<and> err r' = Some e'"
  then have "r' = r\<lparr>err := Some e'\<rparr>"
    using MultipartForm_latched_request [OF assms] by blast
  then show "req r' = req r"
    by simp
qed

theorem MultipartForm_error_atomic_witness:
  "MultipartForm (sink_Writer (Some 0) ''B'')
      \<lparr> Value = Some [(''key'', [''value''])], File = None \<rparr>
      (New Parse_localhost ''http://localhost'' :: (unit, unit) RequestBuilder) =
     Inr ((New Parse_localhost ''http://localhost'')\<lparr>err := Some (Error ''short write'')\<rparr>) \<and>
   MultipartForm (sink_Writer (Some 60) ''B'')
      \<lparr> Value = Some [(''key'', [''value''])],
        File = Some [(''upload'',
                 [\<lparr> Filename = ''a.txt'', Open = Inr (OpenedFile ''hello'' None) \<rparr>])] \<rparr>
      (New Parse_localhost ''http://localhost'' :: (unit, unit) RequestBuilder) =
     Inr ((New Parse_localhost ''http://localhost'')\<lparr>err := Some (Error ''short write'')\<rparr>) \<and>
   MultipartForm (sink_Writer None ''B'')
      \<lparr> Value = Some [(''key'', [''value''])],
        File = Some [(''upload'',
                 [\<lparr> Filename = ''a.txt'', Open = Inl (Error ''open a.txt: no such file'') \<rparr>])] \<rparr>
      (New Parse_localhost ''http://localhost'' :: (unit, unit) RequestBuilder) =
     Inr ((New Parse_localhost ''http://localhost'')
            \<lparr>err := Some (Error ''open a.txt: no such file'')\<rparr>) \<and>
   MultipartForm (sink_Writer None ''B'')
      \<lparr> Value = None,
        File = Some [(''upload'',
                 [\<lparr> Filename = ''a.txt'',
                    Open = Inr (OpenedFile ''hel'' (Some (Error ''read a.txt: input/output error''))) \<rparr>,
                  \<lparr> Filename = ''b.txt'', Open = Inl (Error ''open b.txt: no such file'') \<rparr>])] \<rparr>
      (New Parse_localhost ''http://localhost'' :: (unit, unit) RequestBuilder) =
     Inr ((New Parse_localhost ''http://localhost'')
            \<lparr>err := Some (Error ''read a.txt: input/output error'')\<rparr>) \<and>
   req ((New Parse_localhost ''http://localhost'' :: (unit, unit) RequestBuilder)
          \<lparr>err := Some (Error ''short write'')\<rparr>) =
     req (New Parse_localhost ''http://localhost'' :: (unit, unit) RequestBuilder)"
proof -
  let ?r = "New Parse_localhost ''http://localhost'' :: (unit, unit) RequestBuilder"
  let ?field = "''--B'' @ crlf @ ''Content-Disposition: form-data; name='' @ [CHR 0x22] @
      ''key'' @ [CHR 0x22] @ crlf @ crlf @ ''value''"
  have e: "err ?r = None" by (simp add: New_localhost)
  note defs = sink_Writer_def sink_write_def crlf_def
  have field_fails: "MultipartForm (sink_Writer (Some 0) ''B'')
      \<lparr> Value = Some [(''key'', [''value''])], File = None \<rparr> ?r =
     Inr (?r\<lparr>err := Some (Error ''short write'')\<rparr>)"
    using MultipartForm_error_atomic [where r = ?r and mw = "sink_Writer (Some 0) ''B''"
        and form = "\<lparr> Value = Some [(''key'', [''value''])], File = None \<rparr>"
        and kvsa = "[]" and key = "''key''" and vsa = "[]" and v = "''value''"
        and vsb = "[]" and kvsb = "[]" and wa = "[]" and wb = "[]"
        and e = "Error ''short write''", OF e, THEN conjunct1]
    by (simp add: defs)
  have create_fails: "MultipartForm (sink_Writer (Some 60) ''B'')
      \<lparr> Value = Some [(''key'', [''value''])],
        File = Some [(''upload'',
                 [\<lparr> Filename = ''a.txt'', Open = Inr (OpenedFile ''hello'' None) \<rparr>])] \<rparr> ?r =
     Inr (?r\<lparr>err := Some (Error ''short write'')\<rparr>)"
    using MultipartForm_error_atomic [where r = ?r and mw = "sink_Writer (Some 60) ''B''"
        and form = "\<lparr> Value = Some [(''key'', [''value''])],
          File = Some [(''upload'',
                 [\<lparr> Filename = ''a.txt'', Open = Inr (OpenedFile ''hello'' None) \<rparr>])] \<rparr>"
        and wz = ?field and kfsa = "[]" and fkey = "''upload''" and fsa = "[]"
        and fh = "\<lparr> Filename = ''a.txt'', Open = Inr (OpenedFile ''hello'' None) \<rparr>"
        and fsb = "[]" and kfsb = "[]" and ua = ?field and ub = ?field
        and e = "Error ''short write''", OF e, THEN conjunct2, THEN conjunct1]
    by (simp add: defs)
  have open_fails: "MultipartForm (sink_Writer None ''B'')
      \<lparr> Value = Some [(''key'', [''value''])],
        File = Some [(''upload'',
                 [\<lparr> Filename = ''a.txt'', Open = Inl (Error ''open a.txt: no such file'') \<rparr>])] \<rparr> ?r =
     Inr (?r\<lparr>err := Some (Error ''open a.txt: no such file'')\<rparr>)"
    using MultipartForm_error_atomic [where r = ?r and mw = "sink_Writer None ''B''"
        and form = "\<lparr> Value = Some [(''key'', [''value''])],
          File = Some [(''upload'',
                 [\<lparr> Filename = ''a.txt'', Open = Inl (Error ''open a.txt: no such file'') \<rparr>])] \<rparr>"
        and wz = ?field and kfsa = "[]" and fkey = "''upload''" and fsa = "[]"
        and fh = "\<lparr> Filename = ''a.txt'', Open = Inl (Error ''open a.txt: no such file'') \<rparr>"
        and fsb = "[]" and kfsb = "[]" and ua = ?field and ub = ?field
        and e = "Error ''open a.txt: no such file''", OF e, THEN conjunct2, THEN conjunct1]
    by (simp add: defs)
  have copy_fails: "MultipartForm (sink_Writer None ''B'')
      \<lparr> Value = None,
        File = Some [(''upload'',
                 [\<lparr> Filename = ''a.txt'',
                    Open = Inr (OpenedFile ''hel'' (Some (Error ''read a.txt: input/output error''))) \<rparr>,
                  \<lparr> Filename = ''b.txt'', Open = Inl (Error ''open b.txt: no such file'') \<rparr>])] \<rparr> ?r =
     Inr (?r\<lparr>err := Some (Error ''read a.txt: input/output error'')\<rparr>)"
    using MultipartForm_error_atomic [where r = ?r and mw = "sink_Writer None ''B''"
        and form = "\<lparr> Value = None,
          File = Some [(''upload'',
                 [\<lparr> Filename = ''a.txt'',
                    Open = Inr (OpenedFile ''hel'' (Some (Error ''read a.txt: input/output error''))) \<rparr>,
                  \<lparr> Filename = ''b.txt'', Open = Inl (Error ''open b.txt: no such file'') \<rparr>])] \<rparr>"
        and wz = "[]" and kfsa = "[]" and fkey = "''upload''" and fsa = "[]"
        and fh = "\<lparr> Filename = ''a.txt'',
                    Open = Inr (OpenedFile ''hel'' (Some (Error ''read a.txt: input/output error''))) \<rparr>"
        and fsb = "[\<lparr> Filename = ''b.txt'', Open = Inl (Error ''open b.txt: no such file'') \<rparr>]"
        and kfsb = "[]" and ua = "[]" and ub = "[]"
        and e = "Error ''read a.txt: input/output error''", OF e, THEN conjunct2, THEN conjunct1]
    by (simp add: defs)
  show ?thesis
    using field_fails create_fails open_fails copy_fails by simp
qed

subsection \<open>Do and the retry loop\<close>

lemma outcome_0: "outcome c q s 0 = fst (client_Do c s q)"
  by (simp add: outcome_def)

lemma outcome_Suc: "outcome c q s (Suc k) = outcome c q (snd (client_Do c s q)) k"
  by (simp add: outcome_def)

lemma attempts_done: "bound \<le> i \<Longrightarrow> attempts c q bound i lasterr s calls = ((None, lasterr), s, calls)"
  by (simp add: attempts.simps)

lemma attempts_success:
  "\<forall>j<k. \<exists>e. outcome c q s j = Inl e \<Longrightarrow> outcome c q s k = Inr resp \<Longrightarrow>
   i + int k < bound \<Longrightarrow>
   attempts c q bound i lasterr s calls =
     ((Some resp, None), state_after c q s (Suc k), calls + Suc k)"
proof (induction k arbitrary: i lasterr s calls)
  case 0
  then obtain s' where "client_Do c s q = (Inr resp, s')"
    by (cases "client_Do c s q") (simp add: outcome_0)
  with 0 show ?case
    by (simp add: attempts.simps [of c q bound i])
next
  case (Suc k)
  from Suc.prems(1) obtain e where "outcome c q s 0 = Inl e"
    by blast
  then obtain s' where first: "client_Do c s q = (Inl e, s')"
    by (cases "client_Do c s q") (simp add: outcome_0)
  have later: "\<forall>j<k. \<exists>e. outcome c q s' j = Inl e"
  proof (intro allI impI)
    fix j
    assume "j < k"
    then have "\<exists>e. outcome c q s (Suc j) = Inl e"
      using Suc.prems(1) by simp
    then show "\<exists>e. outcome c q s' j = Inl e"
      using first by (simp add: outcome_Suc)
  qed
  have hit: "outcome c q s' k = Inr resp"
    using Suc.prems(2) first by (simp add: outcome_Suc)
  have room: "(i + 1) + int k < bound"
    using Suc.prems(3) by simp
  have "attempts c q bound i lasterr s calls =
      attempts c q bound (i + 1) (Some e) s' (Suc calls)"
    using Suc.prems(3) first by (simp add: attempts.simps [of c q bound i])
  also have "\<dots> = ((Some resp, None), state_after c q s' (Suc k), Suc calls + Suc k)"
    by (rule Suc.IH [OF later hit room])
  finally show ?case
    using first by simp
qed

lemma attempts_exhausted:
  "\<forall>j<n. \<exists>e. outcome c q s j = Inl e \<Longrightarrow> i + int n = bound \<Longrightarrow>
   attempts c q bound i lasterr s calls =
     ((None, if n = 0 then lasterr else
               (case outcome c q s (n - 1) of Inl e \<Rightarrow> Some e | Inr x \<Rightarrow> None)),
      state_after c q s n, calls + n)"
proof (induction n arbitrary: i lasterr s calls)
  case 0
  then show ?case by (simp add: attempts_done)
next
  case (Suc n)
  from Suc.prems(1) obtain e where e: "outcome c q s 0 = Inl e"
    by blast
  then obtain s' where first: "client_Do c s q = (Inl e, s')"
    by (cases "client_Do c s q") (simp add: outcome_0)
  have later: "\<forall>j<n. \<exists>e. outcome c q s' j = Inl e"
  proof (intro allI impI)
    fix j
    assume "j < n"
    then have "\<exists>e. outcome c q s (Suc j) = Inl e"
      using Suc.prems(1) by simp
    then show "\<exists>e. outcome c q s' j = Inl e"
      using first by (simp add: outcome_Suc)
  qed
  have room: "(i + 1) + int n = bound"
    using Suc.prems(2) by simp
  have "attempts c q bound i lasterr s calls =
      attempts c q bound (i + 1) (Some e) s' (Suc calls)"
    using Suc.prems(2) first by (simp add: attempts.simps [of c q bound i])
  also have "\<dots> = ((None, if n = 0 then Some e else
               (case outcome c q s' (n - 1) of Inl e \<Rightarrow> Some e | Inr x \<Rightarrow> None)),
      state_after c q s' n, Suc calls + n)"
    by (rule Suc.IH [OF later room])
  finally show ?case
    using first e by (cases n) (simp_all add: outcome_Suc)
qed

lemma sint_small: "unat (n :: 64 word) < 2 ^ 63 \<Longrightarrow> sint n = int (unat n)"
proof -
  assume small: "unat n < 2 ^ 63"
  have "int (unat n) < int (2 ^ 63)"
    using small by (simp only: of_nat_less_iff)
  then have hi: "uint n < 2 ^ 63"
    by (simp only: of_nat_power of_nat_numeral of_nat_unat)
  have "- (2 ^ 63) \<le> (0::int)"
    by simp
  also have "0 \<le> uint n"
    by simp
  finally have lo: "- (2 ^ 63) \<le> uint n" .
  have "signed_take_bit 63 (uint n) = uint n"
    using lo hi by (rule signed_take_bit_int_eq_self)
  then show ?thesis
    by (simp add: sint_uint)
qed

lemma sint_2_63: "sint (2 ^ 63 :: 64 word) = - (2 ^ 63)"
  by simp

lemma Do_loop:
  assumes "err r = None" and "req r = Some q" and "unat (retryTimes r) < 2 ^ 63"
  shows "Do dc r s =
     Inr (attempts (the_client dc r) q (int (attempt_bound (retryTimes r))) 0 None s 0)"
proof -
  have one: "sint (1 :: 64 word) = 1"
    by simp
  have "sint (if retryTimes r = 0 then 1 else retryTimes r) =
      int (attempt_bound (retryTimes r))"
    using assms(3) by (simp add: attempt_bound_def sint_small one)
  then show ?thesis
    using assms(1,2)
    by (simp add: Do_def Build_def BuildWithContext_def the_client_def Let_def)
qed

lemma Do_first_success:
  assumes "err r = None" and "req r = Some q" and "unat (retryTimes r) < 2 ^ 63"
    and "\<forall>j<k. \<exists>e. outcome (the_client dc r) q s j = Inl e"
    and "outcome (the_client dc r) q s k = Inr resp"
    and "k < attempt_bound (retryTimes r)"
  shows "Do dc r s =
     Inr ((Some resp, None), state_after (the_client dc r) q s (Suc k), Suc k)"
  using attempts_success [OF assms(4,5), of 0 "int (attempt_bound (retryTimes r))" None 0]
    assms(6) Do_loop [OF assms(1-3)]
  by simp

lemma Do_all_failed:
  assumes "err r = None" and "req r = Some q" and "unat (retryTimes r) < 2 ^ 63"
    and "\<forall>j<attempt_bound (retryTimes r). \<exists>e. outcome (the_client dc r) q s j = Inl e"
  shows "\<exists>e. outcome (the_client dc r) q s (attempt_bound (retryTimes r) - 1) = Inl e \<and>
     Do dc r s =
       Inr ((None, Some e), state_after (the_client dc r) q s (attempt_bound (retryTimes r)),
            attempt_bound (retryTimes r))"
proof -
  have pos: "0 < attempt_bound (retryTimes r)"
    by (simp add: attempt_bound_def unat_gt_0)
  then obtain e where
    e: "outcome (the_client dc r) q s (attempt_bound (retryTimes r) - 1) = Inl e"
    using assms(4) by (metis diff_less zero_less_one)
  show ?thesis
    using attempts_exhausted [OF assms(4), of 0 "int (attempt_bound (retryTimes r))" None 0]
      Do_loop [OF assms(1-3)] pos e
    by simp
qed

lemma attempt_bound_0_1: "attempt_bound 0 = 1" "attempt_bound 1 = 1" "attempt_bound 3 = 3"
  by (simp_all add: attempt_bound_def)

lemma Do_retry_3_example:
  "Do scripted_Client
      (Retry 3 (New Parse_localhost ''http://localhost''))
      [Inl (Error ''timeout''), Inl (Error ''reset''), Inr (200::nat), Inr 500] =
   Inr ((Some 200, None), [Inr 500], 3)"
  by (simp add: Do_def Build_def BuildWithContext_def Retry_def New_localhost
      attempts.simps scripted_Client_def)

lemma Do_retry_0_1_example:
  "Do scripted_Client
      (Retry 0 (New Parse_localhost ''http://localhost''))
      [Inl (Error ''timeout''), Inr (200::nat)] =
   Inr ((None, Some (Error ''timeout'')), [Inr 200], 1)"
  "Do scripted_Client
      (Retry 1 (New Parse_localhost ''http://localhost''))
      [Inl (Error ''timeout''), Inr (200::nat)] =
   Inr ((None, Some (Error ''timeout'')), [Inr 200], 1)"
  by (simp_all add: Do_def Build_def BuildWithContext_def Retry_def New_localhost
      attempts.simps scripted_Client_def)


text \<open>
  C3, where the code departs from it. The loop bound is \<open>int(retryTimes)\<close>. With a
  retry count of \<open>2^63\<close> the conversion gives a negative number, the loop body never
  runs, and \<open>Do\<close> returns \<open>(nil, nil)\<close> without a single call of the transport, here
  one whose first call would succeed. For retry counts below \<open>2^63\<close> the lemmas above
  give what C3 says.
\<close>

theorem Do_retry_overflow:
  "Do scripted_Client
      (Retry (2 ^ 63) (New Parse_localhost ''http://localhost'')) [Inr (200::nat)] =
   Inr ((None, None), [Inr 200], 0)"
  by (simp add: Do_def Build_def BuildWithContext_def Retry_def New_localhost attempts_done)

end
